theory Spec2Isabelle
  imports Main
begin

section \<open>Job state handling of plainbox.impl.session.jobs\<close>

text \<open>
  The development embeds \<^verbatim>\<open>checkbox-ng/plainbox/impl/session/jobs.py\<close>: the
  class \<^verbatim>\<open>JobReadinessInhibitor\<close>, the module constant
  \<^verbatim>\<open>UndesiredJobReadinessInhibitor\<close>, the descriptor \<^verbatim>\<open>OverridableJobField\<close>,
  the two assign filters and the class \<^verbatim>\<open>JobState\<close>.

  Python objects are references. Job definitions and resource expressions live in an
  explicit store and are held by address, so that a change of a job definition is a
  change of the store and is seen by every object that refers to it. Exceptions are
  values of the type \<open>error\<close>; a method that may raise returns \<open>error + 'a\<close>.
  Python strings are lists of code points; the model has the code points below 256.
  \<^verbatim>\<open>gettext\<close> is taken without a message catalogue, where it returns its argument.
\<close>

subsection \<open>Values\<close>

datatype error =
  ValueError string
  | TypeError string
  | AttributeError string
  | KeyError int
  | AssertionError

definition bind_err :: "error + 'a \<Rightarrow> ('a \<Rightarrow> error + 'b) \<Rightarrow> error + 'b" where
  "bind_err m f = (case m of Inl e \<Rightarrow> Inl e | Inr x \<Rightarrow> f x)"

type_synonym job_ref = nat
type_synonym expr_ref = nat

text \<open>
  \<^verbatim>\<open>JobDefinition\<close> and \<^verbatim>\<open>ResourceExpression\<close> are imported by the module; it reads
  the attributes \<^verbatim>\<open>id\<close> and \<^verbatim>\<open>category_id\<close> of the first and \<^verbatim>\<open>text\<close> of the second.
\<close>

record JobDefinition =
  id_attr :: string
  category_id :: string

record ResourceExpression =
  text_attr :: string

record heap =
  jobs :: "job_ref \<Rightarrow> JobDefinition"
  exprs :: "expr_ref \<Rightarrow> ResourceExpression"

text \<open>The values a caller may offer where a job definition is expected.\<close>

datatype pyobj = PyNone | PyStr string | PyJob job_ref

definition isinstance_JobDefinition :: "pyobj \<Rightarrow> bool" where
  "isinstance_JobDefinition v = (case v of PyJob _ \<Rightarrow> True | _ \<Rightarrow> False)"

subsection \<open>The builtins \<^verbatim>\<open>repr\<close> and \<^verbatim>\<open>str.join\<close>\<close>

text \<open>
  \<^verbatim>\<open>{!r}\<close> in a format string renders \<^verbatim>\<open>repr\<close> of the argument. For a string that
  is the text between quotes: double quotes when the text has a single quote and no
  double quote, single quotes otherwise; the chosen quote and the backslash are
  escaped, tab, newline and carriage return are written \<^verbatim>\<open>\t\<close>, \<^verbatim>\<open>\n\<close>, \<^verbatim>\<open>\r\<close>, and
  every other code point that is not printable is written \<^verbatim>\<open>\xhh\<close>.
\<close>

definition hex_digit :: "nat \<Rightarrow> char" where
  "hex_digit n = ''0123456789abcdef'' ! (n mod 16)"

definition backslash :: char where
  "backslash = CHR 0x5C"

definition squote :: char where
  "squote = CHR 0x27"

definition dquote :: char where
  "dquote = CHR 0x22"

definition isprintable :: "char \<Rightarrow> bool" where
  "isprintable ch =
     (let n = (of_char ch :: nat)
      in 32 \<le> n \<and> \<not> (127 \<le> n \<and> n \<le> 160) \<and> n \<noteq> 173)"

definition repr_char :: "char \<Rightarrow> char \<Rightarrow> string" where
  "repr_char quote ch =
     (if ch = quote \<or> ch = backslash then [backslash, ch]
      else if ch = CHR 0x09 then [backslash, CHR ''t'']
      else if ch = CHR 0x0A then [backslash, CHR ''n'']
      else if ch = CHR 0x0D then [backslash, CHR ''r'']
      else if \<not> isprintable ch then
        [backslash, CHR ''x'',
         hex_digit ((of_char ch :: nat) div 16), hex_digit ((of_char ch :: nat) mod 16)]
      else [ch])"

definition repr_str :: "string \<Rightarrow> string" where
  "repr_str s =
     (let quote = (if squote \<in> set s \<and> dquote \<notin> set s then dquote else squote)
      in [quote] @ concat (map (repr_char quote) s) @ [quote])"

fun str_join :: "string \<Rightarrow> string list \<Rightarrow> string" where
  "str_join sep [] = []"
| "str_join sep [x] = x"
| "str_join sep (x # y # ys) = x @ sep @ str_join sep (y # ys)"

subsection \<open>The field machinery of \<^verbatim>\<open>plainbox.impl.pod\<close>\<close>

text \<open>
  An assign filter receives the value a field holds and the value offered, and returns
  the value to store or raises. A field that has never been assigned holds \<open>UNSET\<close>.
\<close>

datatype 'a slot = UNSET | Stored 'a

type_synonym 'a assign_filter = "'a slot \<Rightarrow> 'a \<Rightarrow> error + 'a"

text \<open>
  Modelled from the spec: \<^verbatim>\<open>pod.Field.__set__\<close> is not among the sources. The offered
  value passes through the filters of the field's \<^verbatim>\<open>assign_filter_list\<close> in order, each
  seeing the value the field holds; the first filter that raises ends the assignment and
  the field keeps its value.
\<close>

fun run_filters :: "'a assign_filter list \<Rightarrow> 'a slot \<Rightarrow> 'a \<Rightarrow> error + 'a" where
  "run_filters [] old new = Inr new"
| "run_filters (f # fs) old new = bind_err (f old new) (run_filters fs old)"

text \<open>
  Modelled from the spec: \<^verbatim>\<open>pod.read_only_assign_filter\<close> is not among the sources.
  Instances are read-only after construction: the filter lets the first assignment of
  a field through and refuses every later one.
\<close>

definition read_only_assign_filter :: "string \<Rightarrow> 'a assign_filter" where
  "read_only_assign_filter name old new =
     (case old of UNSET \<Rightarrow> Inr new | Stored _ \<Rightarrow> Inl (AttributeError (name @ '' is read-only'')))"

subsection \<open>JobReadinessInhibitor\<close>

definition UNDESIRED :: int where "UNDESIRED = 0"
definition PENDING_DEP :: int where "PENDING_DEP = 1"
definition FAILED_DEP :: int where "FAILED_DEP = 2"
definition PENDING_RESOURCE :: int where "PENDING_RESOURCE = 3"
definition FAILED_RESOURCE :: int where "FAILED_RESOURCE = 4"

definition cause_display :: "int \<rightharpoonup> string" where
  "cause_display = map_of
     [(UNDESIRED, ''UNDESIRED''),
      (PENDING_DEP, ''PENDING_DEP''),
      (FAILED_DEP, ''FAILED_DEP''),
      (PENDING_RESOURCE, ''PENDING_RESOURCE''),
      (FAILED_RESOURCE, ''FAILED_RESOURCE'')]"

text \<open>Subscription \<^verbatim>\<open>_cause_display[cause]\<close>, which raises on a missing key.\<close>

definition cause_display_getitem :: "int \<Rightarrow> error + string" where
  "cause_display_getitem c = (case cause_display c of None \<Rightarrow> Inl (KeyError c) | Some s \<Rightarrow> Inr s)"

record JobReadinessInhibitor =
  cause :: int
  related_job :: "job_ref option"
  related_expression :: "expr_ref option"

text \<open>
  Modelled from the spec: \<^verbatim>\<open>pod.POD.__init__\<close> is not among the sources. Called with
  one argument for each field, it assigns the fields in their order of declaration, each
  for the first time and through the field's filters.
\<close>

definition JobReadinessInhibitor_POD_init ::
  "int \<Rightarrow> job_ref option \<Rightarrow> expr_ref option \<Rightarrow> error + JobReadinessInhibitor" where
  "JobReadinessInhibitor_POD_init c rj re =
     bind_err (run_filters [read_only_assign_filter ''cause''] UNSET c) (\<lambda>c'.
     bind_err (run_filters [read_only_assign_filter ''related_job''] UNSET rj) (\<lambda>rj'.
     bind_err (run_filters [read_only_assign_filter ''related_expression''] UNSET re) (\<lambda>re'.
     Inr \<lparr>cause = c', related_job = rj', related_expression = re'\<rparr>)))"

definition JobReadinessInhibitor_init ::
  "int \<Rightarrow> job_ref option \<Rightarrow> expr_ref option \<Rightarrow> error + JobReadinessInhibitor" where
  "JobReadinessInhibitor_init c rj re =
     (if c \<notin> dom cause_display then
        Inl (ValueError ''unsupported value for cause'')
      else if c \<noteq> UNDESIRED \<and> rj = None then
        bind_err (cause_display_getitem c) (\<lambda>name.
        Inl (ValueError (''related_job must not be None when cause is '' @ name)))
      else if c \<in> {PENDING_RESOURCE, FAILED_RESOURCE} \<and> re = None then
        bind_err (cause_display_getitem c) (\<lambda>name.
        Inl (ValueError (''related_expression must not be None when cause is '' @ name)))
      else JobReadinessInhibitor_POD_init c rj re)"

definition cause_name :: "JobReadinessInhibitor \<Rightarrow> error + string" where
  "cause_name self = cause_display_getitem (cause self)"

text \<open>The attribute reads \<^verbatim>\<open>self.related_job.id\<close> and \<^verbatim>\<open>self.related_expression.text\<close>.\<close>

definition related_job_id :: "heap \<Rightarrow> JobReadinessInhibitor \<Rightarrow> error + string" where
  "related_job_id h self =
     (case related_job self of
        None \<Rightarrow> Inl (AttributeError ''id'')
      | Some j \<Rightarrow> Inr (id_attr (jobs h j)))"

definition related_expression_text :: "heap \<Rightarrow> JobReadinessInhibitor \<Rightarrow> error + string" where
  "related_expression_text h self =
     (case related_expression self of
        None \<Rightarrow> Inl (AttributeError ''text'')
      | Some e \<Rightarrow> Inr (text_attr (exprs h e)))"

definition JobReadinessInhibitor_str :: "heap \<Rightarrow> JobReadinessInhibitor \<Rightarrow> error + string" where
  "JobReadinessInhibitor_str h self =
     (if cause self = UNDESIRED then Inr ''undesired''
      else if cause self = PENDING_DEP then
        bind_err (related_job_id h self) (\<lambda>i.
        Inr (''required dependency '' @ repr_str i @ '' did not run yet''))
      else if cause self = FAILED_DEP then
        bind_err (related_job_id h self) (\<lambda>i.
        Inr (''required dependency '' @ repr_str i @ '' has failed''))
      else if cause self = PENDING_RESOURCE then
        bind_err (related_expression_text h self) (\<lambda>t.
        Inr (''resource expression '' @ repr_str t
             @ '' could not be evaluated because the resource it depends on did not run yet''))
      else if cause self = FAILED_RESOURCE then
        bind_err (related_expression_text h self) (\<lambda>t.
        Inr (''resource expression '' @ repr_str t @ '' evaluates to false''))
      else Inl AssertionError)"

text \<open>
  Attribute assignment on an inhibitor. The result pairs the outcome with the object as
  it is afterwards: an assignment that raises leaves the object as it was.
\<close>

definition set_cause ::
  "JobReadinessInhibitor \<Rightarrow> int \<Rightarrow> (error + unit) \<times> JobReadinessInhibitor" where
  "set_cause self v =
     (case run_filters [read_only_assign_filter ''cause''] (Stored (cause self)) v of
        Inl e \<Rightarrow> (Inl e, self)
      | Inr v' \<Rightarrow> (Inr (), self\<lparr>cause := v'\<rparr>))"

definition set_related_job ::
  "JobReadinessInhibitor \<Rightarrow> job_ref option \<Rightarrow> (error + unit) \<times> JobReadinessInhibitor" where
  "set_related_job self v =
     (case run_filters [read_only_assign_filter ''related_job''] (Stored (related_job self)) v of
        Inl e \<Rightarrow> (Inl e, self)
      | Inr v' \<Rightarrow> (Inr (), self\<lparr>related_job := v'\<rparr>))"

definition set_related_expression ::
  "JobReadinessInhibitor \<Rightarrow> expr_ref option \<Rightarrow> (error + unit) \<times> JobReadinessInhibitor" where
  "set_related_expression self v =
     (case run_filters [read_only_assign_filter ''related_expression'']
             (Stored (related_expression self)) v of
        Inl e \<Rightarrow> (Inl e, self)
      | Inr v' \<Rightarrow> (Inr (), self\<lparr>related_expression := v'\<rparr>))"

text \<open>
  The module constant is built once, when the module is loaded, by the constructor.
\<close>

definition UndesiredJobReadinessInhibitor :: JobReadinessInhibitor where
  "UndesiredJobReadinessInhibitor = projr (JobReadinessInhibitor_init UNDESIRED None None)"

subsection \<open>OverridableJobField and the assign filters of JobState\<close>

datatype overridable = JOB_VALUE | Overridden string

definition JobDefinition_getattr :: "JobDefinition \<Rightarrow> string \<Rightarrow> error + string" where
  "JobDefinition_getattr j name =
     (if name = ''id'' then Inr (id_attr j)
      else if name = ''category_id'' then Inr (category_id j)
      else Inl (AttributeError name))"

definition OverridableJobField_get ::
  "string \<Rightarrow> heap \<Rightarrow> job_ref \<Rightarrow> overridable \<Rightarrow> error + string" where
  "OverridableJobField_get job_field h instance_job val =
     (case val of
        JOB_VALUE \<Rightarrow> JobDefinition_getattr (jobs h instance_job) job_field
      | Overridden v \<Rightarrow> Inr v)"

definition job_assign_filter :: "job_ref assign_filter" where
  "job_assign_filter old_value new_value = Inr new_value"

definition job_via_assign_filter :: "pyobj assign_filter" where
  "job_via_assign_filter old_value new_value =
     (if old_value \<noteq> UNSET \<and> \<not> isinstance_JobDefinition new_value then
        Inl (TypeError ''via_job must be the actual job, not the checksum'')
      else Inr new_value)"

subsection \<open>JobState\<close>

datatype job_result = MemoryJobResult "(string \<times> string) list"

record JobState =
  job :: job_ref
  readiness_inhibitor_list :: "JobReadinessInhibitor list"
  result :: job_result
  via_job :: pyobj
  effective_category_id_attr :: overridable

text \<open>
  Modelled from the spec: \<^verbatim>\<open>pod.POD.__init__\<close> is not among the sources. A job state is
  created from its job alone; every other field takes the initial value of its
  declaration, assigned for the first time and through the field's filters.
\<close>

definition JobState_init :: "job_ref \<Rightarrow> error + JobState" where
  "JobState_init j =
     bind_err (run_filters [job_assign_filter] UNSET j) (\<lambda>j'.
     bind_err (run_filters [] UNSET [UndesiredJobReadinessInhibitor]) (\<lambda>l.
     bind_err (run_filters [] UNSET (MemoryJobResult [])) (\<lambda>r.
     bind_err (run_filters [job_via_assign_filter] UNSET PyNone) (\<lambda>v.
     bind_err (run_filters [] UNSET JOB_VALUE) (\<lambda>c.
     Inr \<lparr>job = j', readiness_inhibitor_list = l, result = r, via_job = v,
          effective_category_id_attr = c\<rparr>)))))"

definition set_job :: "JobState \<Rightarrow> job_ref \<Rightarrow> (error + unit) \<times> JobState" where
  "set_job self v =
     (case run_filters [job_assign_filter] (Stored (job self)) v of
        Inl e \<Rightarrow> (Inl e, self)
      | Inr v' \<Rightarrow> (Inr (), self\<lparr>job := v'\<rparr>))"

definition set_readiness_inhibitor_list ::
  "JobState \<Rightarrow> JobReadinessInhibitor list \<Rightarrow> (error + unit) \<times> JobState" where
  "set_readiness_inhibitor_list self v =
     (case run_filters [] (Stored (readiness_inhibitor_list self)) v of
        Inl e \<Rightarrow> (Inl e, self)
      | Inr v' \<Rightarrow> (Inr (), self\<lparr>readiness_inhibitor_list := v'\<rparr>))"

definition set_via_job :: "JobState \<Rightarrow> pyobj \<Rightarrow> (error + unit) \<times> JobState" where
  "set_via_job self v =
     (case run_filters [job_via_assign_filter] (Stored (via_job self)) v of
        Inl e \<Rightarrow> (Inl e, self)
      | Inr v' \<Rightarrow> (Inr (), self\<lparr>via_job := v'\<rparr>))"

definition set_effective_category_id ::
  "JobState \<Rightarrow> overridable \<Rightarrow> (error + unit) \<times> JobState" where
  "set_effective_category_id self v =
     (case run_filters [] (Stored (effective_category_id_attr self)) v of
        Inl e \<Rightarrow> (Inl e, self)
      | Inr v' \<Rightarrow> (Inr (), self\<lparr>effective_category_id_attr := v'\<rparr>))"

definition effective_category_id :: "heap \<Rightarrow> JobState \<Rightarrow> error + string" where
  "effective_category_id h self =
     OverridableJobField_get ''category_id'' h (job self) (effective_category_id_attr self)"

definition can_start :: "JobState \<Rightarrow> bool" where
  "can_start self = (length (readiness_inhibitor_list self) = 0)"

text \<open>
  The generator handed to \<^verbatim>\<open>join\<close> renders the inhibitors in list order; the first one
  whose rendering raises ends the call.
\<close>

fun str_each :: "heap \<Rightarrow> JobReadinessInhibitor list \<Rightarrow> error + string list" where
  "str_each h [] = Inr []"
| "str_each h (i # is) =
     bind_err (JobReadinessInhibitor_str h i) (\<lambda>s.
     bind_err (str_each h is) (\<lambda>ss. Inr (s # ss)))"

definition get_readiness_description :: "heap \<Rightarrow> JobState \<Rightarrow> error + string" where
  "get_readiness_description h self =
     (if readiness_inhibitor_list self \<noteq> [] then
        bind_err (str_each h (readiness_inhibitor_list self)) (\<lambda>ss.
        Inr (''job cannot be started: '' @ str_join '', '' ss))
      else Inr ''job can be started'')"

subsection \<open>A store for examples\<close>

text \<open>The store in which every address holds a definition with empty attributes.\<close>

definition blank_heap :: heap where
  "blank_heap = \<lparr>jobs = (\<lambda>_. \<lparr>id_attr = [], category_id = []\<rparr>),
                  exprs = (\<lambda>_. \<lparr>text_attr = []\<rparr>)\<rparr>"

text \<open>
  A store with one job definition, at address 3, and one resource expression, at
  address 2.
\<close>

definition example_heap :: heap where
  "example_heap =
     blank_heap\<lparr>jobs := (jobs blank_heap)(3 := \<lparr>id_attr = ''usb/detect'', category_id = ''usb''\<rparr>),
                 exprs := (exprs blank_heap)(2 := \<lparr>text_attr = ''cpu.cores > 2''\<rparr>)\<rparr>"

text \<open>The same store after the category of the job definition at address 3 has changed.\<close>

definition recategorised_heap :: heap where
  "recategorised_heap =
     example_heap\<lparr>jobs := (jobs example_heap)(3 := (jobs example_heap 3)\<lparr>category_id := ''audio''\<rparr>)\<rparr>"

text \<open>A job state as it is right after its creation for the job at address 3.\<close>

definition example_state :: JobState where
  "example_state =
     \<lparr>job = 3, readiness_inhibitor_list = [UndesiredJobReadinessInhibitor],
      result = MemoryJobResult [], via_job = PyNone, effective_category_id_attr = JOB_VALUE\<rparr>"

section \<open>Construction of inhibitors\<close>

lemmas cause_defs =
  UNDESIRED_def PENDING_DEP_def FAILED_DEP_def PENDING_RESOURCE_def FAILED_RESOURCE_def

lemma dom_cause_display: "dom cause_display = {0, 1, 2, 3, 4}"
  by (auto simp: cause_display_def cause_defs split: if_splits)

lemma cause_display_getitem_simps:
  "cause_display_getitem 0 = Inr ''UNDESIRED''"
  "cause_display_getitem 1 = Inr ''PENDING_DEP''"
  "cause_display_getitem 2 = Inr ''FAILED_DEP''"
  "cause_display_getitem 3 = Inr ''PENDING_RESOURCE''"
  "cause_display_getitem 4 = Inr ''FAILED_RESOURCE''"
  by (simp_all add: cause_display_getitem_def cause_display_def cause_defs)

lemma POD_init_inhibitor:
  "JobReadinessInhibitor_POD_init c rj re =
     Inr \<lparr>cause = c, related_job = rj, related_expression = re\<rparr>"
  by (simp add: JobReadinessInhibitor_POD_init_def read_only_assign_filter_def bind_err_def)

lemma init_unsupported:
  "c \<notin> {0, 1, 2, 3, 4} \<Longrightarrow>
   JobReadinessInhibitor_init c rj re = Inl (ValueError ''unsupported value for cause'')"
  by (simp add: JobReadinessInhibitor_init_def dom_cause_display)

text \<open>
  The constructor returns an object exactly when the cause is one of the five constants
  and the fields the cause needs are given; the object then holds the arguments.
\<close>

lemma init_Inr_iff:
  "JobReadinessInhibitor_init c rj re = Inr inh \<longleftrightarrow>
     c \<in> {0, 1, 2, 3, 4} \<and> (c \<noteq> 0 \<longrightarrow> rj \<noteq> None) \<and> (c \<in> {3, 4} \<longrightarrow> re \<noteq> None)
     \<and> inh = \<lparr>cause = c, related_job = rj, related_expression = re\<rparr>"
proof (cases "c \<in> {0, 1, 2, 3, 4}")
  case False
  then show ?thesis by (simp add: init_unsupported)
next
  case True
  then show ?thesis
    by (auto simp: JobReadinessInhibitor_init_def dom_cause_display cause_defs bind_err_def
      cause_display_getitem_simps POD_init_inhibitor)
qed

lemma init_Inl_ValueError:
  "JobReadinessInhibitor_init c rj re = Inl e \<Longrightarrow> \<exists>msg. e = ValueError msg"
  by (auto simp: JobReadinessInhibitor_init_def bind_err_def POD_init_inhibitor
      cause_display_getitem_def split: if_splits sum.splits)

text \<open>
  C1: the constructor raises, before any object exists, when the cause is not UNDESIRED
  and no related job is given, and when the cause is PENDING_RESOURCE or FAILED_RESOURCE
  and no related expression is given; the error is a ValueError. With one of the five
  causes and the fields that cause needs, it returns the object holding the arguments.
\<close>

theorem construction_requires_fields:
  "(c \<noteq> UNDESIRED \<and> rj = None \<longrightarrow>
      (\<exists>msg. JobReadinessInhibitor_init c rj re = Inl (ValueError msg)))
   \<and> (c \<in> {PENDING_RESOURCE, FAILED_RESOURCE} \<and> re = None \<longrightarrow>
      (\<exists>msg. JobReadinessInhibitor_init c rj re = Inl (ValueError msg)))
   \<and> (c \<in> {UNDESIRED, PENDING_DEP, FAILED_DEP, PENDING_RESOURCE, FAILED_RESOURCE}
       \<and> (c \<noteq> UNDESIRED \<longrightarrow> rj \<noteq> None)
       \<and> (c \<in> {PENDING_RESOURCE, FAILED_RESOURCE} \<longrightarrow> re \<noteq> None) \<longrightarrow>
      JobReadinessInhibitor_init c rj re =
        Inr \<lparr>cause = c, related_job = rj, related_expression = re\<rparr>)"
proof (intro conjI impI)
  assume a: "c \<noteq> UNDESIRED \<and> rj = None"
  have "\<not> (\<exists>inh. JobReadinessInhibitor_init c rj re = Inr inh)"
    using a by (simp add: init_Inr_iff cause_defs)
  then obtain e where "JobReadinessInhibitor_init c rj re = Inl e"
    by (cases "JobReadinessInhibitor_init c rj re") auto
  then show "\<exists>msg. JobReadinessInhibitor_init c rj re = Inl (ValueError msg)"
    using init_Inl_ValueError by blast
next
  assume a: "c \<in> {PENDING_RESOURCE, FAILED_RESOURCE} \<and> re = None"
  have "\<not> (\<exists>inh. JobReadinessInhibitor_init c rj re = Inr inh)"
    using a by (simp add: init_Inr_iff cause_defs)
  then obtain e where "JobReadinessInhibitor_init c rj re = Inl e"
    by (cases "JobReadinessInhibitor_init c rj re") auto
  then show "\<exists>msg. JobReadinessInhibitor_init c rj re = Inl (ValueError msg)"
    using init_Inl_ValueError by blast
next
  assume "c \<in> {UNDESIRED, PENDING_DEP, FAILED_DEP, PENDING_RESOURCE, FAILED_RESOURCE}
       \<and> (c \<noteq> UNDESIRED \<longrightarrow> rj \<noteq> None)
       \<and> (c \<in> {PENDING_RESOURCE, FAILED_RESOURCE} \<longrightarrow> re \<noteq> None)"
  then show "JobReadinessInhibitor_init c rj re =
        Inr \<lparr>cause = c, related_job = rj, related_expression = re\<rparr>"
    by (simp add: init_Inr_iff cause_defs)
qed

theorem construction_requires_fields_witness:
  "(\<exists>msg. JobReadinessInhibitor_init PENDING_DEP None None = Inl (ValueError msg))
   \<and> (\<exists>msg. JobReadinessInhibitor_init FAILED_RESOURCE (Some 2) None = Inl (ValueError msg))
   \<and> JobReadinessInhibitor_init PENDING_RESOURCE (Some 2) (Some 5) =
        Inr \<lparr>cause = PENDING_RESOURCE, related_job = Some 2, related_expression = Some 5\<rparr>
   \<and> JobReadinessInhibitor_init UNDESIRED None None =
        Inr \<lparr>cause = UNDESIRED, related_job = None, related_expression = None\<rparr>"
  using construction_requires_fields [of PENDING_DEP None None]
    construction_requires_fields [of FAILED_RESOURCE "Some 2" None]
    construction_requires_fields [of PENDING_RESOURCE "Some 2" "Some 5"]
    construction_requires_fields [of UNDESIRED None None]
  by (simp add: cause_defs)

text \<open>
  C2, as stated, asks the constructor to refuse a field the cause does not use. It does
  not: a related job given with UNDESIRED and a related expression given with
  PENDING_DEP are both stored.
\<close>

theorem forbidden_fields_accepted:
  "JobReadinessInhibitor_init UNDESIRED (Some 7) None =
     Inr \<lparr>cause = UNDESIRED, related_job = Some 7, related_expression = None\<rparr>
   \<and> JobReadinessInhibitor_init PENDING_DEP (Some 7) (Some 3) =
     Inr \<lparr>cause = PENDING_DEP, related_job = Some 7, related_expression = Some 3\<rparr>"
  by (simp add: init_Inr_iff cause_defs)

text \<open>
  C2, amended: every constructed inhibitor holds the arguments it was built from, its
  cause is one of the five constants, a cause other than UNDESIRED comes with a related
  job and a cause PENDING_RESOURCE or FAILED_RESOURCE comes with a related expression.
  The converse directions do not hold: UNDESIRED is built with any related job and
  expression, and PENDING_DEP and FAILED_DEP are built with any related expression once
  a related job is given.
\<close>

theorem constructed_has_required_fields:
  "(JobReadinessInhibitor_init c rj re = Inr inh \<longrightarrow>
      cause inh = c \<and> related_job inh = rj \<and> related_expression inh = re
      \<and> c \<in> {UNDESIRED, PENDING_DEP, FAILED_DEP, PENDING_RESOURCE, FAILED_RESOURCE}
      \<and> (c \<noteq> UNDESIRED \<longrightarrow> rj \<noteq> None)
      \<and> (c \<in> {PENDING_RESOURCE, FAILED_RESOURCE} \<longrightarrow> re \<noteq> None))
   \<and> JobReadinessInhibitor_init UNDESIRED rj re =
        Inr \<lparr>cause = UNDESIRED, related_job = rj, related_expression = re\<rparr>
   \<and> (c \<in> {PENDING_DEP, FAILED_DEP} \<and> rj \<noteq> None \<longrightarrow>
        JobReadinessInhibitor_init c rj re =
          Inr \<lparr>cause = c, related_job = rj, related_expression = re\<rparr>)"
  by (auto simp: init_Inr_iff cause_defs)

theorem constructed_has_required_fields_witness:
  "cause \<lparr>cause = FAILED_RESOURCE, related_job = Some 1, related_expression = Some 2\<rparr>
     = FAILED_RESOURCE
   \<and> FAILED_RESOURCE \<in> {UNDESIRED, PENDING_DEP, FAILED_DEP, PENDING_RESOURCE, FAILED_RESOURCE}
   \<and> JobReadinessInhibitor_init FAILED_RESOURCE (Some 1) (Some 2) =
       Inr \<lparr>cause = FAILED_RESOURCE, related_job = Some 1, related_expression = Some 2\<rparr>
   \<and> JobReadinessInhibitor_init FAILED_DEP (Some 1) (Some 2) =
       Inr \<lparr>cause = FAILED_DEP, related_job = Some 1, related_expression = Some 2\<rparr>"
  using constructed_has_required_fields [of FAILED_RESOURCE "Some 1" "Some 2"
      "\<lparr>cause = FAILED_RESOURCE, related_job = Some 1, related_expression = Some 2\<rparr>"]
    constructed_has_required_fields [of FAILED_DEP "Some 1" "Some 2"]
  by (simp add: init_Inr_iff cause_defs)

section \<open>Job states\<close>

text \<open>
  C3: \<open>can_start\<close> is true exactly when the list of readiness inhibitors is empty, for
  every job state.
\<close>

theorem can_start_iff_no_inhibitor:
  "can_start self \<longleftrightarrow> readiness_inhibitor_list self = []"
  by (simp add: can_start_def)

lemma Undesired_value:
  "UndesiredJobReadinessInhibitor =
     \<lparr>cause = UNDESIRED, related_job = None, related_expression = None\<rparr>"
  by (simp add: UndesiredJobReadinessInhibitor_def init_Inr_iff [THEN iffD2] cause_defs)

lemma JobState_init_value:
  "JobState_init j =
     Inr \<lparr>job = j, readiness_inhibitor_list = [UndesiredJobReadinessInhibitor],
          result = MemoryJobResult [], via_job = PyNone,
          effective_category_id_attr = JOB_VALUE\<rparr>"
  by (simp add: JobState_init_def bind_err_def job_assign_filter_def job_via_assign_filter_def)

text \<open>
  C4: creating a job state for any job succeeds, and its list of readiness inhibitors is
  the one-element list holding the module constant \<open>UndesiredJobReadinessInhibitor\<close>,
  the same for every job. The constant is what the constructor returns for UNDESIRED
  alone: its cause is UNDESIRED and it has no related job and no related expression. A
  fresh job state cannot start.
\<close>

theorem fresh_state_is_undesired:
  "\<exists>self. JobState_init j = Inr self
      \<and> readiness_inhibitor_list self = [UndesiredJobReadinessInhibitor]
      \<and> JobReadinessInhibitor_init UNDESIRED None None = Inr UndesiredJobReadinessInhibitor
      \<and> cause UndesiredJobReadinessInhibitor = UNDESIRED
      \<and> related_job UndesiredJobReadinessInhibitor = None
      \<and> related_expression UndesiredJobReadinessInhibitor = None
      \<and> \<not> can_start self"
  by (simp add: JobState_init_value can_start_def Undesired_value init_Inr_iff cause_defs)

lemma set_effective_category_id_value:
  "set_effective_category_id self v = (Inr (), self\<lparr>effective_category_id_attr := v\<rparr>)"
  by (simp add: set_effective_category_id_def)

text \<open>
  C5: while the stored value is the sentinel \<open>JOB_VALUE\<close>, reading
  \<open>effective_category_id\<close> returns the category of the job definition as the store has
  it at the time of the read, so the read follows every change of that definition; a
  fresh job state stores the sentinel. Writing a value succeeds, and from then on the
  read returns the written value in every store, whatever has become of the job
  definition.
\<close>

theorem effective_category_id_inherits_until_overridden:
  "(effective_category_id_attr self = JOB_VALUE \<longrightarrow>
      effective_category_id h self = Inr (category_id (jobs h (job self))))
   \<and> (JobState_init j = Inr fresh \<longrightarrow>
      effective_category_id h fresh = Inr (category_id (jobs h j)))
   \<and> fst (set_effective_category_id self (Overridden v)) = Inr ()
   \<and> effective_category_id h' (snd (set_effective_category_id self (Overridden v))) = Inr v"
  by (auto simp: effective_category_id_def OverridableJobField_get_def JobDefinition_getattr_def
      set_effective_category_id_value JobState_init_value)

theorem effective_category_id_inherits_until_overridden_witness:
  "JobState_init 3 = Inr example_state
   \<and> effective_category_id example_heap example_state = Inr ''usb''
   \<and> effective_category_id recategorised_heap example_state = Inr ''audio''
   \<and> effective_category_id example_heap
        (snd (set_effective_category_id example_state (Overridden ''disk''))) = Inr ''disk''
   \<and> effective_category_id recategorised_heap
        (snd (set_effective_category_id example_state (Overridden ''disk''))) = Inr ''disk''"
proof -
  have built: "JobState_init 3 = Inr example_state"
    by (simp add: JobState_init_value example_state_def)
  have stored: "effective_category_id_attr example_state = JOB_VALUE"
    by (simp add: example_state_def)
  have cat: "category_id (jobs example_heap 3) = ''usb''"
    "category_id (jobs recategorised_heap 3) = ''audio''"
    by (simp_all add: recategorised_heap_def example_heap_def)
  show ?thesis
    using built stored cat
      effective_category_id_inherits_until_overridden
        [of example_state example_heap 3 example_state "''disk''" example_heap]
      effective_category_id_inherits_until_overridden
        [of example_state recategorised_heap 3 example_state "''disk''" recategorised_heap]
    by (simp add: example_state_def)
qed

section \<open>Explanations\<close>

text \<open>The explanation string of a constructed inhibitor, cause by cause.\<close>

lemma constructed_str:
  assumes "JobReadinessInhibitor_init c rj re = Inr inh"
  shows "JobReadinessInhibitor_str h inh =
     (if c = 0 then Inr ''undesired''
      else if c = 1 then
        Inr (''required dependency '' @ repr_str (id_attr (jobs h (the rj))) @ '' did not run yet'')
      else if c = 2 then
        Inr (''required dependency '' @ repr_str (id_attr (jobs h (the rj))) @ '' has failed'')
      else if c = 3 then
        Inr (''resource expression '' @ repr_str (text_attr (exprs h (the re)))
             @ '' could not be evaluated because the resource it depends on did not run yet'')
      else
        Inr (''resource expression '' @ repr_str (text_attr (exprs h (the re)))
             @ '' evaluates to false''))"
  using assms
  by (auto simp: init_Inr_iff JobReadinessInhibitor_str_def cause_defs related_job_id_def
      related_expression_text_def bind_err_def)

lemma constructed_cause_name:
  assumes "JobReadinessInhibitor_init c rj re = Inr inh"
  shows "cause_name inh = cause_display_getitem c" and "c \<in> {0, 1, 2, 3, 4}"
  using assms by (auto simp: init_Inr_iff cause_name_def)

lemma constructed_str_differs:
  assumes "JobReadinessInhibitor_init c rj re = Inr inh"
    and "JobReadinessInhibitor_init c2 rj2 re2 = Inr inh2"
    and "c \<noteq> c2"
  shows "JobReadinessInhibitor_str h inh \<noteq> JobReadinessInhibitor_str h inh2"
proof
  assume eq: "JobReadinessInhibitor_str h inh = JobReadinessInhibitor_str h inh2"
  obtain s where s: "JobReadinessInhibitor_str h inh = Inr s"
    using constructed_str [OF assms(1), of h] by (auto split: if_splits)
  have s2: "JobReadinessInhibitor_str h inh2 = Inr s" using eq s by simp
  have c: "c \<in> {0, 1, 2, 3, 4}" "c2 \<in> {0, 1, 2, 3, 4}"
    using assms(1,2) by (auto simp: init_Inr_iff)
  have k1: "s ! 2 = (if c = 0 then CHR ''d'' else if c = 1 \<or> c = 2 then CHR ''q'' else CHR ''s'')"
    using s c(1) constructed_str [OF assms(1), of h] by auto
  have k2: "s ! 2 = (if c2 = 0 then CHR ''d'' else if c2 = 1 \<or> c2 = 2 then CHR ''q'' else CHR ''s'')"
    using s2 c(2) constructed_str [OF assms(2), of h] by auto
  have l1: "c \<noteq> 0 \<Longrightarrow> last s = (if c = 1 \<or> c = 3 then CHR ''t'' else if c = 2 then CHR ''d'' else CHR ''e'')"
    using s c(1) constructed_str [OF assms(1), of h] by auto
  have l2: "c2 \<noteq> 0 \<Longrightarrow> last s = (if c2 = 1 \<or> c2 = 3 then CHR ''t'' else if c2 = 2 then CHR ''d'' else CHR ''e'')"
    using s2 c(2) constructed_str [OF assms(2), of h] by auto
  show False
    using k1 k2 l1 l2 c assms(3) by (auto split: if_splits)
qed

text \<open>
  C7: for every inhibitor built by the constructor the cause is one of the five
  constants, \<open>cause_name\<close> returns the display name of that cause, and the explanation
  string is fixed by the cause: UNDESIRED gives the constant text \<open>undesired\<close>, which
  reads neither job nor expression; PENDING_DEP and FAILED_DEP give a text around the
  \<open>repr\<close> of the related job's id, ending in \<open>did not run yet\<close> and \<open>has failed\<close>;
  PENDING_RESOURCE and FAILED_RESOURCE give a text around the \<open>repr\<close> of the related
  expression's source text, saying that the resource did not run yet and that the
  expression evaluates to false. Two constructed inhibitors with different causes never
  have the same explanation.
\<close>

theorem explanation_by_cause:
  "JobReadinessInhibitor_init c rj re = Inr inh \<Longrightarrow>
     (c = UNDESIRED \<or> c = PENDING_DEP \<or> c = FAILED_DEP \<or> c = PENDING_RESOURCE
        \<or> c = FAILED_RESOURCE)
     \<and> (c = UNDESIRED \<longrightarrow>
          cause_name inh = Inr ''UNDESIRED''
          \<and> JobReadinessInhibitor_str h inh = Inr ''undesired'')
     \<and> (c = PENDING_DEP \<longrightarrow>
          cause_name inh = Inr ''PENDING_DEP''
          \<and> (\<exists>j. rj = Some j \<and> JobReadinessInhibitor_str h inh =
                Inr (''required dependency '' @ repr_str (id_attr (jobs h j))
                     @ '' did not run yet'')))
     \<and> (c = FAILED_DEP \<longrightarrow>
          cause_name inh = Inr ''FAILED_DEP''
          \<and> (\<exists>j. rj = Some j \<and> JobReadinessInhibitor_str h inh =
                Inr (''required dependency '' @ repr_str (id_attr (jobs h j))
                     @ '' has failed'')))
     \<and> (c = PENDING_RESOURCE \<longrightarrow>
          cause_name inh = Inr ''PENDING_RESOURCE''
          \<and> (\<exists>e. re = Some e \<and> JobReadinessInhibitor_str h inh =
                Inr (''resource expression '' @ repr_str (text_attr (exprs h e))
                     @ '' could not be evaluated because the resource it depends on did not run yet'')))
     \<and> (c = FAILED_RESOURCE \<longrightarrow>
          cause_name inh = Inr ''FAILED_RESOURCE''
          \<and> (\<exists>e. re = Some e \<and> JobReadinessInhibitor_str h inh =
                Inr (''resource expression '' @ repr_str (text_attr (exprs h e))
                     @ '' evaluates to false'')))
     \<and> (JobReadinessInhibitor_init c2 rj2 re2 = Inr inh2 \<and> c \<noteq> c2 \<longrightarrow>
          JobReadinessInhibitor_str h inh \<noteq> JobReadinessInhibitor_str h inh2)"
proof -
  assume built: "JobReadinessInhibitor_init c rj re = Inr inh"
  have range: "c \<in> {0, 1, 2, 3, 4}"
    and name: "cause_name inh = cause_display_getitem c"
    using constructed_cause_name [OF built] by simp_all
  have job: "c \<noteq> 0 \<Longrightarrow> \<exists>j. rj = Some j"
    and expr: "c = 3 \<or> c = 4 \<Longrightarrow> \<exists>e. re = Some e"
    using built by (auto simp: init_Inr_iff)
  note str = constructed_str [OF built, of h]
  have differs: "JobReadinessInhibitor_init c2 rj2 re2 = Inr inh2 \<and> c \<noteq> c2 \<longrightarrow>
          JobReadinessInhibitor_str h inh \<noteq> JobReadinessInhibitor_str h inh2"
    using constructed_str_differs [OF built] by blast
  have five: "c = UNDESIRED \<or> c = PENDING_DEP \<or> c = FAILED_DEP \<or> c = PENDING_RESOURCE
        \<or> c = FAILED_RESOURCE"
    using range by (auto simp: cause_defs)
  have c0: "c = UNDESIRED \<longrightarrow> cause_name inh = Inr ''UNDESIRED''
          \<and> JobReadinessInhibitor_str h inh = Inr ''undesired''"
    using name str by (simp add: cause_defs cause_display_getitem_simps)
  have c1: "c = PENDING_DEP \<longrightarrow> cause_name inh = Inr ''PENDING_DEP''
          \<and> (\<exists>j. rj = Some j \<and> JobReadinessInhibitor_str h inh =
                Inr (''required dependency '' @ repr_str (id_attr (jobs h j))
                     @ '' did not run yet''))"
    using name str job by (auto simp: cause_defs cause_display_getitem_simps)
  have c2: "c = FAILED_DEP \<longrightarrow> cause_name inh = Inr ''FAILED_DEP''
          \<and> (\<exists>j. rj = Some j \<and> JobReadinessInhibitor_str h inh =
                Inr (''required dependency '' @ repr_str (id_attr (jobs h j))
                     @ '' has failed''))"
    using name str job by (auto simp: cause_defs cause_display_getitem_simps)
  have c3: "c = PENDING_RESOURCE \<longrightarrow> cause_name inh = Inr ''PENDING_RESOURCE''
          \<and> (\<exists>e. re = Some e \<and> JobReadinessInhibitor_str h inh =
                Inr (''resource expression '' @ repr_str (text_attr (exprs h e))
                     @ '' could not be evaluated because the resource it depends on did not run yet''))"
    using name str expr by (auto simp: cause_defs cause_display_getitem_simps)
  have c4: "c = FAILED_RESOURCE \<longrightarrow> cause_name inh = Inr ''FAILED_RESOURCE''
          \<and> (\<exists>e. re = Some e \<and> JobReadinessInhibitor_str h inh =
                Inr (''resource expression '' @ repr_str (text_attr (exprs h e))
                     @ '' evaluates to false''))"
    using name str expr by (auto simp: cause_defs cause_display_getitem_simps)
  show ?thesis
    using five c0 c1 c2 c3 c4 differs by blast
qed

lemma repr_usb: "repr_str ''usb/detect'' = [squote] @ ''usb/detect'' @ [squote]"
  by code_simp

lemma repr_cpu: "repr_str ''cpu.cores > 2'' = [squote] @ ''cpu.cores > 2'' @ [squote]"
  by code_simp

lemma example_heap_simps:
  "id_attr (jobs example_heap 3) = ''usb/detect''"
  "category_id (jobs example_heap 3) = ''usb''"
  "text_attr (exprs example_heap 2) = ''cpu.cores > 2''"
  by (simp_all add: example_heap_def)

theorem explanation_by_cause_witness:
  "cause_name \<lparr>cause = UNDESIRED, related_job = None, related_expression = None\<rparr>
     = Inr ''UNDESIRED''
   \<and> JobReadinessInhibitor_str example_heap
       \<lparr>cause = UNDESIRED, related_job = None, related_expression = None\<rparr> = Inr ''undesired''
   \<and> JobReadinessInhibitor_str example_heap
       \<lparr>cause = PENDING_DEP, related_job = Some 3, related_expression = None\<rparr>
     = Inr (''required dependency '' @ [squote] @ ''usb/detect'' @ [squote] @ '' did not run yet'')
   \<and> JobReadinessInhibitor_str example_heap
       \<lparr>cause = FAILED_DEP, related_job = Some 3, related_expression = None\<rparr>
     = Inr (''required dependency '' @ [squote] @ ''usb/detect'' @ [squote] @ '' has failed'')
   \<and> JobReadinessInhibitor_str example_heap
       \<lparr>cause = PENDING_RESOURCE, related_job = Some 3, related_expression = Some 2\<rparr>
     = Inr (''resource expression '' @ [squote] @ ''cpu.cores > 2'' @ [squote]
            @ '' could not be evaluated because the resource it depends on did not run yet'')
   \<and> JobReadinessInhibitor_str example_heap
       \<lparr>cause = FAILED_RESOURCE, related_job = Some 3, related_expression = Some 2\<rparr>
     = Inr (''resource expression '' @ [squote] @ ''cpu.cores > 2'' @ [squote]
            @ '' evaluates to false'')
   \<and> JobReadinessInhibitor_str example_heap
       \<lparr>cause = PENDING_DEP, related_job = Some 3, related_expression = None\<rparr>
     \<noteq> JobReadinessInhibitor_str example_heap
       \<lparr>cause = FAILED_DEP, related_job = Some 3, related_expression = None\<rparr>"
proof -
  have b0: "JobReadinessInhibitor_init UNDESIRED None None =
      Inr \<lparr>cause = UNDESIRED, related_job = None, related_expression = None\<rparr>"
    and b1: "JobReadinessInhibitor_init PENDING_DEP (Some 3) None =
      Inr \<lparr>cause = PENDING_DEP, related_job = Some 3, related_expression = None\<rparr>"
    and b2: "JobReadinessInhibitor_init FAILED_DEP (Some 3) None =
      Inr \<lparr>cause = FAILED_DEP, related_job = Some 3, related_expression = None\<rparr>"
    and b3: "JobReadinessInhibitor_init PENDING_RESOURCE (Some 3) (Some 2) =
      Inr \<lparr>cause = PENDING_RESOURCE, related_job = Some 3, related_expression = Some 2\<rparr>"
    and b4: "JobReadinessInhibitor_init FAILED_RESOURCE (Some 3) (Some 2) =
      Inr \<lparr>cause = FAILED_RESOURCE, related_job = Some 3, related_expression = Some 2\<rparr>"
    by (simp_all add: init_Inr_iff cause_defs)
  show ?thesis
    using explanation_by_cause [OF b0, of example_heap]
      explanation_by_cause [OF b1, of example_heap FAILED_DEP "Some 3" None
        "\<lparr>cause = FAILED_DEP, related_job = Some 3, related_expression = None\<rparr>"]
      explanation_by_cause [OF b2, of example_heap]
      explanation_by_cause [OF b3, of example_heap]
      explanation_by_cause [OF b4, of example_heap]
      b2
    by (simp add: cause_defs example_heap_simps repr_usb repr_cpu)
qed

lemma str_each_constructed:
  "\<forall>i \<in> set l. \<exists>c rj re. JobReadinessInhibitor_init c rj re = Inr i \<Longrightarrow>
   \<exists>ss. str_each h l = Inr ss \<and> list_all2 (\<lambda>i s. JobReadinessInhibitor_str h i = Inr s) l ss"
proof (induction l)
  case Nil
  then show ?case by simp
next
  case (Cons i l)
  from Cons.prems obtain c rj re where "JobReadinessInhibitor_init c rj re = Inr i"
    by auto
  then obtain s where s: "JobReadinessInhibitor_str h i = Inr s"
    using constructed_str [of c rj re i h] by (auto split: if_splits)
  from Cons obtain ss where ss: "str_each h l = Inr ss"
    "list_all2 (\<lambda>i s. JobReadinessInhibitor_str h i = Inr s) l ss"
    by auto
  show ?case
    using s ss by (simp add: bind_err_def)
qed

section \<open>The readiness description\<close>

text \<open>
  C6, as stated, gives the two results as the text \<open>can be started\<close> and as the bare
  comma-joined explanations. The method returns \<open>job can be started\<close> for a state
  without inhibitors, and for a state with two UNDESIRED inhibitors it returns
  \<open>job cannot be started: undesired, undesired\<close>, which is not the joined explanations
  alone.
\<close>

theorem description_is_not_bare_text:
  "get_readiness_description blank_heap
      \<lparr>job = 0, readiness_inhibitor_list = [], result = MemoryJobResult [], via_job = PyNone,
       effective_category_id_attr = JOB_VALUE\<rparr> = Inr ''job can be started''
   \<and> get_readiness_description blank_heap
      \<lparr>job = 0, readiness_inhibitor_list = [], result = MemoryJobResult [], via_job = PyNone,
       effective_category_id_attr = JOB_VALUE\<rparr> \<noteq> Inr ''can be started''
   \<and> get_readiness_description blank_heap
      \<lparr>job = 0,
       readiness_inhibitor_list = [UndesiredJobReadinessInhibitor, UndesiredJobReadinessInhibitor],
       result = MemoryJobResult [], via_job = PyNone,
       effective_category_id_attr = JOB_VALUE\<rparr> = Inr ''job cannot be started: undesired, undesired''
   \<and> get_readiness_description blank_heap
      \<lparr>job = 0,
       readiness_inhibitor_list = [UndesiredJobReadinessInhibitor, UndesiredJobReadinessInhibitor],
       result = MemoryJobResult [], via_job = PyNone,
       effective_category_id_attr = JOB_VALUE\<rparr> \<noteq> Inr (str_join '', '' [''undesired'', ''undesired''])"
  by (simp add: get_readiness_description_def Undesired_value JobReadinessInhibitor_str_def
      bind_err_def)

text \<open>
  C6, amended: \<open>get_readiness_description\<close> returns \<open>job can be started\<close> when the list
  of readiness inhibitors is empty. When the list is not empty and every inhibitor in it
  was built by the constructor, each inhibitor has an explanation string, and the result
  is \<open>job cannot be started: \<close> followed by those explanations, in list order, joined by
  a comma and a space.
\<close>

theorem description_by_inhibitors:
  "(readiness_inhibitor_list self = [] \<longrightarrow>
      get_readiness_description h self = Inr ''job can be started'')
   \<and> (readiness_inhibitor_list self \<noteq> []
       \<and> (\<forall>i \<in> set (readiness_inhibitor_list self).
             \<exists>c rj re. JobReadinessInhibitor_init c rj re = Inr i) \<longrightarrow>
      (\<exists>ss. list_all2 (\<lambda>i s. JobReadinessInhibitor_str h i = Inr s)
               (readiness_inhibitor_list self) ss
          \<and> get_readiness_description h self =
              Inr (''job cannot be started: '' @ str_join '', '' ss)))"
proof (intro conjI impI)
  assume "readiness_inhibitor_list self = []"
  then show "get_readiness_description h self = Inr ''job can be started''"
    by (simp add: get_readiness_description_def)
next
  assume a: "readiness_inhibitor_list self \<noteq> []
       \<and> (\<forall>i \<in> set (readiness_inhibitor_list self).
             \<exists>c rj re. JobReadinessInhibitor_init c rj re = Inr i)"
  then obtain ss where ss: "str_each h (readiness_inhibitor_list self) = Inr ss"
    "list_all2 (\<lambda>i s. JobReadinessInhibitor_str h i = Inr s) (readiness_inhibitor_list self) ss"
    using str_each_constructed [of "readiness_inhibitor_list self" h] by blast
  have "get_readiness_description h self = Inr (''job cannot be started: '' @ str_join '', '' ss)"
    using a ss(1) by (simp add: get_readiness_description_def bind_err_def)
  then show "\<exists>ss. list_all2 (\<lambda>i s. JobReadinessInhibitor_str h i = Inr s)
               (readiness_inhibitor_list self) ss
          \<and> get_readiness_description h self =
              Inr (''job cannot be started: '' @ str_join '', '' ss)"
    using ss(2) by blast
qed

theorem description_by_inhibitors_witness:
  "get_readiness_description example_heap
      \<lparr>job = 0, readiness_inhibitor_list = [], result = MemoryJobResult [], via_job = PyNone,
       effective_category_id_attr = JOB_VALUE\<rparr> = Inr ''job can be started''
   \<and> get_readiness_description example_heap
      \<lparr>job = 0,
       readiness_inhibitor_list =
         [\<lparr>cause = FAILED_DEP, related_job = Some 3, related_expression = None\<rparr>,
          \<lparr>cause = FAILED_RESOURCE, related_job = Some 3, related_expression = Some 2\<rparr>],
       result = MemoryJobResult [], via_job = PyNone, effective_category_id_attr = JOB_VALUE\<rparr>
     = Inr (''job cannot be started: required dependency '' @ [squote] @ ''usb/detect'' @ [squote]
            @ '' has failed, resource expression '' @ [squote] @ ''cpu.cores > 2'' @ [squote]
            @ '' evaluates to false'')"
proof -
  have b2: "JobReadinessInhibitor_init FAILED_DEP (Some 3) None =
      Inr \<lparr>cause = FAILED_DEP, related_job = Some 3, related_expression = None\<rparr>"
    and b4: "JobReadinessInhibitor_init FAILED_RESOURCE (Some 3) (Some 2) =
      Inr \<lparr>cause = FAILED_RESOURCE, related_job = Some 3, related_expression = Some 2\<rparr>"
    by (simp_all add: init_Inr_iff cause_defs)
  have valid: "\<forall>i \<in> set [\<lparr>cause = FAILED_DEP, related_job = Some 3, related_expression = None\<rparr>,
          \<lparr>cause = FAILED_RESOURCE, related_job = Some 3, related_expression = Some 2\<rparr>].
        \<exists>c rj re. JobReadinessInhibitor_init c rj re = Inr i"
    using b2 b4 by auto
  have s2: "JobReadinessInhibitor_str example_heap
        \<lparr>cause = FAILED_DEP, related_job = Some 3, related_expression = None\<rparr>
      = Inr (''required dependency '' @ [squote] @ ''usb/detect'' @ [squote] @ '' has failed'')"
    using constructed_str [OF b2, of example_heap]
    by (simp add: cause_defs example_heap_simps repr_usb)
  have s4: "JobReadinessInhibitor_str example_heap
        \<lparr>cause = FAILED_RESOURCE, related_job = Some 3, related_expression = Some 2\<rparr>
      = Inr (''resource expression '' @ [squote] @ ''cpu.cores > 2'' @ [squote]
            @ '' evaluates to false'')"
    using constructed_str [OF b4, of example_heap]
    by (simp add: cause_defs example_heap_simps repr_cpu)
  show ?thesis
    using valid
      description_by_inhibitors [of "\<lparr>job = 0, readiness_inhibitor_list = [], result = MemoryJobResult [],
         via_job = PyNone, effective_category_id_attr = JOB_VALUE\<rparr>" example_heap]
      description_by_inhibitors [of "\<lparr>job = 0,
       readiness_inhibitor_list =
         [\<lparr>cause = FAILED_DEP, related_job = Some 3, related_expression = None\<rparr>,
          \<lparr>cause = FAILED_RESOURCE, related_job = Some 3, related_expression = Some 2\<rparr>],
       result = MemoryJobResult [], via_job = PyNone, effective_category_id_attr = JOB_VALUE\<rparr>"
       example_heap]
    by (auto simp: s2 s4 list_all2_Cons1)
qed

section \<open>The guard on \<^verbatim>\<open>via_job\<close>\<close>

text \<open>
  C8, as stated, has every assignment of a value that is not a job definition raise. The
  filter exempts a field that has never been assigned: there a checksum string is let
  through, and creating a job state stores None in \<open>via_job\<close> through the same filter.
\<close>

theorem via_job_first_assignment_unchecked:
  "job_via_assign_filter UNSET (PyStr ''checksum'') = Inr (PyStr ''checksum'')
   \<and> \<not> isinstance_JobDefinition (PyStr ''checksum'')
   \<and> run_filters [job_via_assign_filter] UNSET PyNone = Inr PyNone
   \<and> \<not> isinstance_JobDefinition PyNone
   \<and> JobState_init 3 =
       Inr \<lparr>job = 3, readiness_inhibitor_list = [UndesiredJobReadinessInhibitor],
            result = MemoryJobResult [], via_job = PyNone,
            effective_category_id_attr = JOB_VALUE\<rparr>"
  by (simp add: job_via_assign_filter_def isinstance_JobDefinition_def bind_err_def
      JobState_init_value)

text \<open>
  C8, amended: on a job state, whose \<open>via_job\<close> field holds a value (possibly None),
  assigning a value that is not a job definition raises TypeError and leaves the state as
  it was, and assigning a job definition stores it. The first assignment of the field,
  made while it is still unset, accepts every value. Hence a \<open>via_job\<close> that is a job
  definition is a job definition after every assignment that succeeds.
\<close>

theorem via_job_guard:
  "(\<not> isinstance_JobDefinition v \<longrightarrow>
      set_via_job self v =
        (Inl (TypeError ''via_job must be the actual job, not the checksum''), self))
   \<and> (isinstance_JobDefinition v \<longrightarrow> set_via_job self v = (Inr (), self\<lparr>via_job := v\<rparr>))
   \<and> job_via_assign_filter UNSET v = Inr v
   \<and> (isinstance_JobDefinition (via_job self) \<and> fst (set_via_job self v) = Inr () \<longrightarrow>
        isinstance_JobDefinition (via_job (snd (set_via_job self v))))"
  by (auto simp: set_via_job_def job_via_assign_filter_def bind_err_def)

theorem via_job_guard_witness:
  "set_via_job \<lparr>job = 1, readiness_inhibitor_list = [], result = MemoryJobResult [],
                 via_job = PyJob 2, effective_category_id_attr = JOB_VALUE\<rparr> (PyStr ''0a1b'')
     = (Inl (TypeError ''via_job must be the actual job, not the checksum''),
        \<lparr>job = 1, readiness_inhibitor_list = [], result = MemoryJobResult [],
         via_job = PyJob 2, effective_category_id_attr = JOB_VALUE\<rparr>)
   \<and> set_via_job \<lparr>job = 1, readiness_inhibitor_list = [], result = MemoryJobResult [],
                 via_job = PyJob 2, effective_category_id_attr = JOB_VALUE\<rparr> (PyJob 5)
     = (Inr (),
        \<lparr>job = 1, readiness_inhibitor_list = [], result = MemoryJobResult [],
         via_job = PyJob 5, effective_category_id_attr = JOB_VALUE\<rparr>)"
  using via_job_guard [of "PyStr ''0a1b''" "\<lparr>job = 1, readiness_inhibitor_list = [], result = MemoryJobResult [],
                 via_job = PyJob 2, effective_category_id_attr = JOB_VALUE\<rparr>"]
    via_job_guard [of "PyJob 5" "\<lparr>job = 1, readiness_inhibitor_list = [], result = MemoryJobResult [],
                 via_job = PyJob 2, effective_category_id_attr = JOB_VALUE\<rparr>"]
  by (simp add: isinstance_JobDefinition_def)

section \<open>Inhibitors are read-only\<close>

text \<open>
  C9: after an inhibitor has been built, assigning \<open>cause\<close>, \<open>related_job\<close> or
  \<open>related_expression\<close> raises, whatever the value offered, and the object is as it was:
  its three fields are the arguments of the constructor.
\<close>

theorem inhibitor_is_read_only:
  "JobReadinessInhibitor_init c rj re = Inr inh \<Longrightarrow>
     (\<exists>e. set_cause inh c' = (Inl e, inh))
     \<and> (\<exists>e. set_related_job inh rj' = (Inl e, inh))
     \<and> (\<exists>e. set_related_expression inh re' = (Inl e, inh))
     \<and> cause inh = c \<and> related_job inh = rj \<and> related_expression inh = re"
  by (simp add: init_Inr_iff set_cause_def set_related_job_def set_related_expression_def
      read_only_assign_filter_def bind_err_def)

theorem inhibitor_is_read_only_witness:
  "JobReadinessInhibitor_init FAILED_DEP (Some 4) None =
      Inr \<lparr>cause = FAILED_DEP, related_job = Some 4, related_expression = None\<rparr>
   \<and> fst (set_cause \<lparr>cause = FAILED_DEP, related_job = Some 4, related_expression = None\<rparr> UNDESIRED)
       = Inl (AttributeError ''cause is read-only'')
   \<and> snd (set_cause \<lparr>cause = FAILED_DEP, related_job = Some 4, related_expression = None\<rparr> UNDESIRED)
       = \<lparr>cause = FAILED_DEP, related_job = Some 4, related_expression = None\<rparr>
   \<and> snd (set_related_job \<lparr>cause = FAILED_DEP, related_job = Some 4, related_expression = None\<rparr> None)
       = \<lparr>cause = FAILED_DEP, related_job = Some 4, related_expression = None\<rparr>
   \<and> snd (set_related_expression
            \<lparr>cause = FAILED_DEP, related_job = Some 4, related_expression = None\<rparr> (Some 9))
       = \<lparr>cause = FAILED_DEP, related_job = Some 4, related_expression = None\<rparr>"
proof -
  have built: "JobReadinessInhibitor_init FAILED_DEP (Some 4) None =
      Inr \<lparr>cause = FAILED_DEP, related_job = Some 4, related_expression = None\<rparr>"
    by (simp add: init_Inr_iff cause_defs)
  show ?thesis
    using built inhibitor_is_read_only [OF built, of UNDESIRED None "Some 9"]
    by (auto simp: set_cause_def read_only_assign_filter_def bind_err_def)
qed

section \<open>Causes outside the table\<close>

text \<open>
  C10: a cause below 0 or above 4 makes the constructor raise ValueError with the text
  \<open>unsupported value for cause\<close>, whatever the related job and expression.
\<close>

theorem unsupported_cause_raises:
  "c < 0 \<or> 4 < c \<Longrightarrow>
   JobReadinessInhibitor_init c rj re = Inl (ValueError ''unsupported value for cause'')"
  by (rule init_unsupported) auto

theorem unsupported_cause_raises_witness:
  "JobReadinessInhibitor_init 5 (Some 1) (Some 2) = Inl (ValueError ''unsupported value for cause'')
   \<and> JobReadinessInhibitor_init (- 1) None None = Inl (ValueError ''unsupported value for cause'')"
  using unsupported_cause_raises [of 5 "Some 1" "Some 2"] unsupported_cause_raises [of "- 1" None None]
  by simp

end
